theory Spec2Isabelle
  imports Main
begin

section \<open>Data model of the dua screen\<close>

text \<open>
  The content types declared at the top of the screen module. Fields whose source
  name would collide between the two types (\<open>id\<close>, \<open>name\<close>, \<open>description\<close>) or
  with a HOL constant carry a prefix; optional fields (\<open>urdu_translation?\<close>,
  \<open>count?\<close>, \<open>audio_path?\<close>) are options.
\<close>

record Subcategory =
  sub_id :: string
  category_id :: string
  sub_name :: string
  sub_description :: string

record Dua =
  dua_id :: string
  subcategory_id :: string
  dua_name :: string
  arabic_text :: string
  reference :: string
  dua_description :: string
  translation :: string
  urdu_translation :: "string option"
  dua_count :: "string option"
  audio_path :: "string option"

type_synonym ContentBundle = "Subcategory \<times> Dua list"

text \<open>
  The part of the component state that the loader and the retry handler write:
  \<open>subcategory\<close>, \<open>subcategoryDuas\<close>, \<open>loading\<close>, \<open>error\<close> (\<open>string | null\<close>) and
  \<open>soundObjects\<close>. A sound object is opaque, so \<open>soundObjects\<close> is the list of
  the indices that own one.
\<close>

record screen =
  subcategory :: "Subcategory option"
  subcategoryDuas :: "Dua list"
  loading :: bool
  error :: "string option"
  soundObjects :: "nat list"

text \<open>The values of the \<open>useState\<close> initialisers.\<close>

definition initial_screen :: screen where
  "initial_screen =
     \<lparr>subcategory = None, subcategoryDuas = [], loading = True, error = Some [],
      soundObjects = []\<rparr>"

text \<open>
  AsyncStorage: the stored items, and the list of every \<open>setItem\<close> call made
  (key and value, whether or not the call was rejected).
\<close>

record storage =
  items :: "string \<rightharpoonup> string"
  set_calls :: "(string \<times> string) list"

text \<open>
  What one run meets outside the component. \<open>fetch\<close> either rejects
  (\<open>NetworkError\<close>) or resolves to a response with its \<open>ok\<close> flag and body text.
  \<open>isConnected\<close> is the flag read from \<open>NetInfo.fetch()\<close> (a \<open>null\<close> flag counts
  as \<open>False\<close>; \<open>NetInfo.fetch\<close> itself is taken not to reject).
  \<open>getItem_rejects\<close> and \<open>setItem_rejects\<close> say for which keys the storage promise
  rejects during this run. \<open>API_URL\<close> is imported from the configuration module.
\<close>

datatype response = NetworkError | Response bool string

record env =
  API_URL :: string
  isConnected :: bool
  fetch :: "string \<Rightarrow> response"
  getItem_rejects :: "string \<Rightarrow> bool"
  setItem_rejects :: "string \<Rightarrow> bool"

text \<open>
  \<open>JSON.parse\<close>, \<open>response.json()\<close> and \<open>JSON.stringify\<close> are library functions;
  they are parameters of the model, at the two types the screen uses them at.
  A parse that throws is \<open>None\<close>. Text that parses is taken to have the declared
  type (\<open>Subcategory\<close>, \<open>Dua[]\<close>), as the component state's type annotations say.
\<close>

record json =
  parse_subcategory :: "string \<Rightarrow> Subcategory option"
  stringify_subcategory :: "Subcategory \<Rightarrow> string"
  parse_duas :: "string \<Rightarrow> Dua list option"
  stringify_duas :: "Dua list \<Rightarrow> string"

text \<open>
  The activation of a handler: the state it has written so far, what it has
  logged and requested, and the local variables of \<open>fetchData\<close>.
\<close>

record frame =
  ui :: screen
  disk :: storage
  console :: "string list"
  requests :: "string list"
  subcategoryData :: "Subcategory option"
  duasData :: "Dua list option"
  fromCache :: bool

text \<open>
  A block either runs to its end or throws; both leave a frame behind, which
  \<open>peel\<close> returns.
\<close>

datatype 'a completion = Normal 'a | Thrown 'a

definition peel :: "'a completion \<Rightarrow> 'a" where
  "peel c = (case c of Normal a \<Rightarrow> a | Thrown a \<Rightarrow> a)"

datatype 'a promise = Rejected | Resolved 'a

datatype 'a fetched = FetchThrew | NotOk | Body 'a

section \<open>Primitive operations\<close>

text \<open>JavaScript truthiness of a \<open>string | null\<close>: not null and not empty.\<close>

definition text_of :: "string option \<Rightarrow> string" where
  "text_of v = (case v of None \<Rightarrow> [] | Some s \<Rightarrow> s)"

definition truthy :: "string option \<Rightarrow> bool" where
  "truthy v = (text_of v \<noteq> [])"

text \<open>A template literal prints an undefined parameter as \<open>undefined\<close>.\<close>

definition id_text :: "string option \<Rightarrow> string" where
  "id_text subcategoryId = (case subcategoryId of None \<Rightarrow> ''undefined'' | Some s \<Rightarrow> s)"

definition subcategory_cache_key :: "string \<Rightarrow> string" where
  "subcategory_cache_key k = ''subcategory_'' @ k @ ''_cache''"

definition duas_cache_key :: "string \<Rightarrow> string" where
  "duas_cache_key k = ''duas_'' @ k @ ''_cache''"

definition retry_subcategory_key :: "string \<Rightarrow> string" where
  "retry_subcategory_key k = ''subcategory_'' @ k"

definition retry_duas_key :: "string \<Rightarrow> string" where
  "retry_duas_key k = ''duas_'' @ k"

definition subcategory_url :: "env \<Rightarrow> string \<Rightarrow> string" where
  "subcategory_url E k = API_URL E @ ''/api/subcategories/'' @ k"

definition duas_url :: "env \<Rightarrow> string \<Rightarrow> string" where
  "duas_url E k = API_URL E @ ''/api/duas/subcategory/'' @ k"

definition getItem :: "env \<Rightarrow> storage \<Rightarrow> string \<Rightarrow> string option promise" where
  "getItem E d key = (if getItem_rejects E key then Rejected else Resolved (items d key))"

definition setItem :: "env \<Rightarrow> string \<Rightarrow> string \<Rightarrow> storage \<Rightarrow> storage completion" where
  "setItem E key v d =
     (let d1 = d\<lparr>set_calls := set_calls d @ [(key, v)]\<rparr>
      in if setItem_rejects E key then Thrown d1
         else Normal (d1\<lparr>items := (items d1)(key \<mapsto> v)\<rparr>))"

text \<open>
  \<open>await fetch(url)\<close>, the test of \<open>response.ok\<close> and \<open>await response.json()\<close>:
  the request or the parse may throw, and a response that is not ok is not parsed.
\<close>

definition fetch_json :: "(string \<Rightarrow> 'a option) \<Rightarrow> env \<Rightarrow> string \<Rightarrow> 'a fetched" where
  "fetch_json parse E url =
     (case fetch E url of
        NetworkError \<Rightarrow> FetchThrew
      | Response ok body \<Rightarrow>
          if ok then (case parse body of None \<Rightarrow> FetchThrew | Some v \<Rightarrow> Body v)
          else NotOk)"

abbreviation no_id_message :: string where
  "no_id_message \<equiv> ''No subcategory ID found''"

abbreviation offline_message :: string where
  "offline_message \<equiv>
     ''No internet connection and no cached data available. Please connect to the internet and try again.''"

abbreviation failed_message :: string where
  "failed_message \<equiv> ''Failed to load duas. Please try again later.''"

abbreviation retry_offline_message :: string where
  "retry_offline_message \<equiv> ''No internet connection and no cached data available.''"

abbreviation retry_failed_message :: string where
  "retry_failed_message \<equiv>
     ''Failed to load data. Please check your connection and try again.''"

abbreviation cache_log :: string where
  "cache_log \<equiv> ''Loaded dua data from cache''"

abbreviation fresh_log :: string where
  "fresh_log \<equiv> ''Successfully fetched fresh data from network''"

section \<open>The automatic load: \<open>fetchData\<close>\<close>

text \<open>
  The cache read: both \<open>getItem\<close> calls, the test that both values are truthy,
  both \<open>JSON.parse\<close> calls, then the two state setters and \<open>fromCache = true\<close>.
  Nothing here has a handler of its own, so a rejected read or a parse that
  throws leaves the block.
\<close>

definition load_cache :: "json \<Rightarrow> env \<Rightarrow> string \<Rightarrow> frame \<Rightarrow> frame completion" where
  "load_cache J E k fr =
     (case getItem E (disk fr) (subcategory_cache_key k) of
        Rejected \<Rightarrow> Thrown fr
      | Resolved cachedSubcategory \<Rightarrow>
          (case getItem E (disk fr) (duas_cache_key k) of
             Rejected \<Rightarrow> Thrown fr
           | Resolved cachedDuas \<Rightarrow>
               if truthy cachedSubcategory \<and> truthy cachedDuas then
                 (case parse_subcategory J (text_of cachedSubcategory) of
                    None \<Rightarrow> Thrown fr
                  | Some sd \<Rightarrow>
                      (case parse_duas J (text_of cachedDuas) of
                         None \<Rightarrow> Thrown (fr\<lparr>subcategoryData := Some sd\<rparr>)
                       | Some dd \<Rightarrow>
                           Normal (fr\<lparr>ui := (ui fr)\<lparr>subcategory := Some sd,
                                                    subcategoryDuas := dd\<rparr>,
                                      console := console fr @ [cache_log],
                                      subcategoryData := Some sd,
                                      duasData := Some dd,
                                      fromCache := True\<rparr>)))
               else Normal fr))"

text \<open>The two \<open>setItem\<close> calls of the load, in order; the second is not made if the first rejects.\<close>

definition save_to_cache ::
  "json \<Rightarrow> env \<Rightarrow> string \<Rightarrow> Subcategory \<Rightarrow> Dua list \<Rightarrow> storage \<Rightarrow> storage completion" where
  "save_to_cache J E k sd dd d =
     (case setItem E (subcategory_cache_key k) (stringify_subcategory J sd) d of
        Thrown d1 \<Rightarrow> Thrown d1
      | Normal d1 \<Rightarrow> setItem E (duas_cache_key k) (stringify_duas J dd) d1)"

text \<open>
  The body of the inner \<open>try\<close>: the subcategory request, then the duas request,
  then the cache writes, then the state setters unless the cache was shown.
\<close>

definition fetch_from_network :: "json \<Rightarrow> env \<Rightarrow> string \<Rightarrow> frame \<Rightarrow> frame completion" where
  "fetch_from_network J E k fr =
     (let fr1 = fr\<lparr>requests := requests fr @ [subcategory_url E k]\<rparr>
      in case fetch_json (parse_subcategory J) E (subcategory_url E k) of
           FetchThrew \<Rightarrow> Thrown fr1
         | NotOk \<Rightarrow> Normal fr1
         | Body sd \<Rightarrow>
             (let fr2 = fr1\<lparr>requests := requests fr1 @ [duas_url E k],
                            subcategoryData := Some sd\<rparr>
              in case fetch_json (parse_duas J) E (duas_url E k) of
                   FetchThrew \<Rightarrow> Thrown fr2
                 | NotOk \<Rightarrow> Normal fr2
                 | Body dd \<Rightarrow>
                     (let fr3 = fr2\<lparr>duasData := Some dd\<rparr>
                      in case save_to_cache J E k sd dd (disk fr3) of
                           Thrown d \<Rightarrow> Thrown (fr3\<lparr>disk := d\<rparr>)
                         | Normal d \<Rightarrow>
                             (let fr4 = fr3\<lparr>disk := d\<rparr>;
                                  fr5 = (if fromCache fr4 then fr4
                                         else fr4\<lparr>ui := (ui fr4)\<lparr>subcategory := Some sd,
                                                                  subcategoryDuas := dd\<rparr>\<rparr>)
                              in Normal (fr5\<lparr>console := console fr5 @ [fresh_log]\<rparr>)))))"

text \<open>The inner \<open>try\<close> with its \<open>catch\<close>, which only logs.\<close>

definition online_phase :: "json \<Rightarrow> env \<Rightarrow> string \<Rightarrow> frame \<Rightarrow> frame" where
  "online_phase J E k fr =
     (case fetch_from_network J E k fr of
        Normal f \<Rightarrow> f
      | Thrown f \<Rightarrow>
          f\<lparr>console := console f @
              (''Network error (silent):'' #
               (if fromCache f then []
                else [''No cached data available and network failed'']))\<rparr>)"

text \<open>
  The audio set-up after the branches: it reads the local \<open>duasData\<close>, which holds
  the fetched list when the fetch got that far and the cached list otherwise.
\<close>

definition setup_audio :: "frame \<Rightarrow> frame" where
  "setup_audio fr =
     (case duasData fr of
        None \<Rightarrow> fr
      | Some dd \<Rightarrow>
          if 0 < length dd
          then fr\<lparr>ui := (ui fr)\<lparr>soundObjects :=
                    filter (\<lambda>i. truthy (audio_path (dd ! i))) [0..<length dd]\<rparr>\<rparr>
          else fr)"

text \<open>
  \<open>fetchData\<close>, run on the current state and storage. The guard on a missing or
  empty \<open>subcategoryId\<close> returns before the \<open>try\<close>, so its \<open>finally\<close> does not
  run there and \<open>setLoading(false)\<close> is called by the guard itself.
\<close>

definition fetchData :: "json \<Rightarrow> env \<Rightarrow> string option \<Rightarrow> screen \<times> storage \<Rightarrow> frame" where
  "fetchData J E subcategoryId w =
     (let fr0 = \<lparr>ui = (fst w)\<lparr>loading := True, error := None\<rparr>, disk = snd w,
                 console = [], requests = [], subcategoryData = None, duasData = None,
                 fromCache = False\<rparr>
      in if \<not> truthy subcategoryId then
           fr0\<lparr>ui := (ui fr0)\<lparr>error := Some no_id_message, loading := False\<rparr>\<rparr>
         else
           (let k = text_of subcategoryId;
                fr3 = (case load_cache J E k fr0 of
                         Thrown fr1 \<Rightarrow>
                           fr1\<lparr>ui := (ui fr1)\<lparr>error := Some failed_message\<rparr>,
                               console := console fr1 @ [''Error fetching data:'']\<rparr>
                       | Normal fr1 \<Rightarrow>
                           (let fr2 = (if isConnected E then online_phase J E k fr1
                                       else if \<not> fromCache fr1
                                       then fr1\<lparr>ui := (ui fr1)\<lparr>error := Some offline_message\<rparr>\<rparr>
                                       else fr1)
                            in setup_audio fr2))
            in fr3\<lparr>ui := (ui fr3)\<lparr>loading := False\<rparr>\<rparr>))"

section \<open>The manual retry handler\<close>

definition save_retry ::
  "json \<Rightarrow> env \<Rightarrow> string \<Rightarrow> Subcategory \<Rightarrow> Dua list \<Rightarrow> storage \<Rightarrow> storage completion" where
  "save_retry J E k sd dd d =
     (case setItem E (retry_subcategory_key k) (stringify_subcategory J sd) d of
        Thrown d1 \<Rightarrow> Thrown d1
      | Normal d1 \<Rightarrow> setItem E (retry_duas_key k) (stringify_duas J dd) d1)"

text \<open>The outer \<open>try\<close> of the handler: here a response that is not ok throws.\<close>

definition retry_network :: "json \<Rightarrow> env \<Rightarrow> string \<Rightarrow> frame \<Rightarrow> frame completion" where
  "retry_network J E k fr =
     (let fr1 = fr\<lparr>requests := requests fr @ [subcategory_url E k]\<rparr>
      in case fetch_json (parse_subcategory J) E (subcategory_url E k) of
           FetchThrew \<Rightarrow> Thrown fr1
         | NotOk \<Rightarrow> Thrown fr1
         | Body sd \<Rightarrow>
             (let fr2 = fr1\<lparr>requests := requests fr1 @ [duas_url E k],
                            subcategoryData := Some sd\<rparr>
              in case fetch_json (parse_duas J) E (duas_url E k) of
                   FetchThrew \<Rightarrow> Thrown fr2
                 | NotOk \<Rightarrow> Thrown fr2
                 | Body dd \<Rightarrow>
                     (let fr3 = fr2\<lparr>duasData := Some dd\<rparr>
                      in case save_retry J E k sd dd (disk fr3) of
                           Thrown d \<Rightarrow> Thrown (fr3\<lparr>disk := d\<rparr>)
                         | Normal d \<Rightarrow>
                             Normal (fr3\<lparr>disk := d,
                                         ui := (ui fr3)\<lparr>subcategory := Some sd,
                                                         subcategoryDuas := dd,
                                                         loading := False\<rparr>\<rparr>))))"

text \<open>
  The cache fallback inside the handler's \<open>catch\<close>. \<open>setSubcategory\<close> is called on
  the first parsed value before the second value is parsed.
\<close>

definition retry_cache :: "json \<Rightarrow> env \<Rightarrow> string \<Rightarrow> frame \<Rightarrow> frame completion" where
  "retry_cache J E k fr =
     (case getItem E (disk fr) (retry_subcategory_key k) of
        Rejected \<Rightarrow> Thrown fr
      | Resolved cachedSubcategory \<Rightarrow>
          (case getItem E (disk fr) (retry_duas_key k) of
             Rejected \<Rightarrow> Thrown fr
           | Resolved cachedDuas \<Rightarrow>
               if truthy cachedSubcategory \<and> truthy cachedDuas then
                 (case parse_subcategory J (text_of cachedSubcategory) of
                    None \<Rightarrow> Thrown fr
                  | Some sd \<Rightarrow>
                      (let fr1 = fr\<lparr>ui := (ui fr)\<lparr>subcategory := Some sd\<rparr>\<rparr>
                       in case parse_duas J (text_of cachedDuas) of
                            None \<Rightarrow> Thrown fr1
                          | Some dd \<Rightarrow>
                              Normal (fr1\<lparr>ui := (ui fr1)\<lparr>subcategoryDuas := dd\<rparr>\<rparr>)))
               else Normal (fr\<lparr>ui := (ui fr)\<lparr>error := Some retry_offline_message\<rparr>\<rparr>)))"

definition retry :: "json \<Rightarrow> env \<Rightarrow> string option \<Rightarrow> screen \<times> storage \<Rightarrow> frame" where
  "retry J E subcategoryId w =
     (let k = id_text subcategoryId;
          fr0 = \<lparr>ui = (fst w)\<lparr>loading := True, error := Some []\<rparr>, disk = snd w,
                 console = [], requests = [], subcategoryData = None, duasData = None,
                 fromCache = False\<rparr>
      in case retry_network J E k fr0 of
           Normal fr1 \<Rightarrow> fr1
         | Thrown fr1 \<Rightarrow>
             (let fr2 = fr1\<lparr>console := console fr1 @ [''Network error in retry, trying cache:'']\<rparr>;
                  fr3 = (case retry_cache J E k fr2 of
                           Normal f \<Rightarrow> f
                         | Thrown f \<Rightarrow> f\<lparr>ui := (ui f)\<lparr>error := Some retry_failed_message\<rparr>\<rparr>)
              in fr3\<lparr>ui := (ui fr3)\<lparr>loading := False\<rparr>\<rparr>))"

section \<open>Reading a finished load as an outcome\<close>

text \<open>
  The loader reports through the component state. What the view then renders is
  read back here: a truthy \<open>error\<close> selects the error view (the message of the
  offline branch is \<open>Unavailable\<close>, any other message is \<open>Failed\<close>); otherwise the
  bundle in the state was put there from the cache (\<open>fromCache\<close>) or by the
  network branch (which logs \<open>fresh_log\<close> after its setters), or was not put there
  at all.
\<close>

datatype LoadOutcome =
    Fresh ContentBundle
  | Cached ContentBundle
  | Unavailable string
  | Failed string
  | NoData

definition shown_bundle :: "screen \<Rightarrow> ContentBundle option" where
  "shown_bundle s = (case subcategory s of None \<Rightarrow> None | Some sd \<Rightarrow> Some (sd, subcategoryDuas s))"

definition load_outcome :: "frame \<Rightarrow> LoadOutcome" where
  "load_outcome fr =
     (if truthy (error (ui fr)) then
        (if error (ui fr) = Some offline_message then Unavailable (text_of (error (ui fr)))
         else Failed (text_of (error (ui fr))))
      else if fromCache fr then
        (case shown_bundle (ui fr) of None \<Rightarrow> NoData | Some b \<Rightarrow> Cached b)
      else if fresh_log \<in> set (console fr) then
        (case shown_bundle (ui fr) of None \<Rightarrow> NoData | Some b \<Rightarrow> Fresh b)
      else NoData)"

text \<open>The state a caller passes on to the next handler.\<close>

definition world :: "frame \<Rightarrow> screen \<times> storage" where
  "world fr = (ui fr, disk fr)"

section \<open>Conditions on a run\<close>

text \<open>
  A cache entry is present for a key when both stored values are truthy; it
  deserializes to a bundle when both values also parse.
\<close>

definition cache_present :: "storage \<Rightarrow> string \<Rightarrow> bool" where
  "cache_present d k =
     (truthy (items d (subcategory_cache_key k)) \<and> truthy (items d (duas_cache_key k)))"

definition cached_bundle :: "json \<Rightarrow> storage \<Rightarrow> string \<Rightarrow> ContentBundle option" where
  "cached_bundle J d k =
     (if cache_present d k then
        (case parse_subcategory J (text_of (items d (subcategory_cache_key k))) of
           None \<Rightarrow> None
         | Some sd \<Rightarrow>
             (case parse_duas J (text_of (items d (duas_cache_key k))) of
                None \<Rightarrow> None
              | Some dd \<Rightarrow> Some (sd, dd)))
      else None)"

text \<open>The bundle the remote API serves in a run, when both requests succeed.\<close>

definition remote_bundle :: "json \<Rightarrow> env \<Rightarrow> string \<Rightarrow> ContentBundle option" where
  "remote_bundle J E k =
     (case fetch_json (parse_subcategory J) E (subcategory_url E k) of
        Body sd \<Rightarrow>
          (case fetch_json (parse_duas J) E (duas_url E k) of
             Body dd \<Rightarrow> Some (sd, dd)
           | _ \<Rightarrow> None)
      | _ \<Rightarrow> None)"

definition reads_ok :: "env \<Rightarrow> string \<Rightarrow> bool" where
  "reads_ok E k =
     (\<not> getItem_rejects E (subcategory_cache_key k) \<and> \<not> getItem_rejects E (duas_cache_key k))"

definition writes_ok :: "env \<Rightarrow> string \<Rightarrow> bool" where
  "writes_ok E k =
     (\<not> setItem_rejects E (subcategory_cache_key k) \<and> \<not> setItem_rejects E (duas_cache_key k))"

text \<open>The same conditions for the keys the retry handler uses.\<close>

definition retry_cache_present :: "storage \<Rightarrow> string \<Rightarrow> bool" where
  "retry_cache_present d k =
     (truthy (items d (retry_subcategory_key k)) \<and> truthy (items d (retry_duas_key k)))"

definition retry_reads_ok :: "env \<Rightarrow> string \<Rightarrow> bool" where
  "retry_reads_ok E k =
     (\<not> getItem_rejects E (retry_subcategory_key k) \<and> \<not> getItem_rejects E (retry_duas_key k))"

definition retry_writes_ok :: "env \<Rightarrow> string \<Rightarrow> bool" where
  "retry_writes_ok E k =
     (\<not> setItem_rejects E (retry_subcategory_key k) \<and> \<not> setItem_rejects E (retry_duas_key k))"

text \<open>The same load repeated \<open>n\<close> times in an unchanged environment.\<close>

fun loads :: "nat \<Rightarrow> json \<Rightarrow> env \<Rightarrow> string option \<Rightarrow> screen \<times> storage \<Rightarrow> screen \<times> storage" where
  "loads 0 J E subcategoryId w = w"
| "loads (Suc n) J E subcategoryId w =
     world (fetchData J E subcategoryId (loads n J E subcategoryId w))"

section \<open>A concrete run\<close>

text \<open>
  Sample content, a miniature codec that knows the sample texts, and sample
  environments for the key \<open>12\<close>; they instantiate the theorems below.
\<close>

definition morning :: Subcategory where
  "morning = \<lparr>sub_id = ''12'', category_id = ''3'', sub_name = ''Morning'',
              sub_description = ''Morning duas''\<rparr>"

definition evening :: Subcategory where
  "evening = \<lparr>sub_id = ''12'', category_id = ''3'', sub_name = ''Evening'',
              sub_description = ''Evening duas''\<rparr>"

definition waking :: Dua where
  "waking = \<lparr>dua_id = ''40'', subcategory_id = ''12'', dua_name = ''Waking'',
             arabic_text = ''...'', reference = ''Bukhari'', dua_description = [],
             translation = ''All praise'', urdu_translation = None, dua_count = None,
             audio_path = Some ''audio/40.mp3''\<rparr>"

definition sample_json :: json where
  "sample_json =
     \<lparr>parse_subcategory =
        (\<lambda>t. if t = ''{name:Morning}'' then Some morning
             else if t = ''{name:Evening}'' then Some evening else None),
      stringify_subcategory = (\<lambda>s. ''{name:'' @ sub_name s @ ''}''),
      parse_duas =
        (\<lambda>t. if t = ''[Waking]'' then Some [waking]
             else if t = ''[]'' then Some [] else None),
      stringify_duas = (\<lambda>ds. ''['' @ concat (map dua_name ds) @ '']'')\<rparr>"

definition serving :: "string \<Rightarrow> response" where
  "serving url =
     (if url = ''https://api.test/api/subcategories/12'' then Response True ''{name:Morning}''
      else if url = ''https://api.test/api/duas/subcategory/12'' then Response True ''[Waking]''
      else Response False [])"

definition online :: env where
  "online = \<lparr>API_URL = ''https://api.test'', isConnected = True, fetch = serving,
             getItem_rejects = (\<lambda>_. False), setItem_rejects = (\<lambda>_. False)\<rparr>"

definition offline :: env where
  "offline = \<lparr>API_URL = ''https://api.test'', isConnected = False,
              fetch = (\<lambda>_. NetworkError),
              getItem_rejects = (\<lambda>_. False), setItem_rejects = (\<lambda>_. False)\<rparr>"

text \<open>
  Connected environments in which something fails: every request throws; only
  the subcategory request is answered; every storage read rejects; every
  storage write rejects.
\<close>

definition unreachable_server :: env where
  "unreachable_server =
     \<lparr>API_URL = ''https://api.test'', isConnected = True, fetch = (\<lambda>_. NetworkError),
      getItem_rejects = (\<lambda>_. False), setItem_rejects = (\<lambda>_. False)\<rparr>"

definition metadata_only :: env where
  "metadata_only =
     \<lparr>API_URL = ''https://api.test'', isConnected = True,
      fetch = (\<lambda>url. if url = ''https://api.test/api/subcategories/12''
                     then Response True ''{name:Morning}'' else Response False []),
      getItem_rejects = (\<lambda>_. False), setItem_rejects = (\<lambda>_. False)\<rparr>"

definition unreadable :: env where
  "unreadable =
     \<lparr>API_URL = ''https://api.test'', isConnected = True, fetch = serving,
      getItem_rejects = (\<lambda>_. True), setItem_rejects = (\<lambda>_. False)\<rparr>"

definition unwritable :: env where
  "unwritable =
     \<lparr>API_URL = ''https://api.test'', isConnected = True, fetch = serving,
      getItem_rejects = (\<lambda>_. False), setItem_rejects = (\<lambda>_. True)\<rparr>"

definition empty_disk :: storage where
  "empty_disk = \<lparr>items = Map.empty, set_calls = []\<rparr>"

definition evening_disk :: storage where
  "evening_disk =
     \<lparr>items = [''subcategory_12_cache'' \<mapsto> ''{name:Evening}'', ''duas_12_cache'' \<mapsto> ''[]''],
      set_calls = []\<rparr>"

definition corrupt_disk :: storage where
  "corrupt_disk =
     \<lparr>items = [''subcategory_12_cache'' \<mapsto> ''{name:'', ''duas_12_cache'' \<mapsto> ''[]''],
      set_calls = []\<rparr>"

text \<open>
  A session on a device that starts offline with nothing stored: the screen
  opens and loads, the user comes online and presses Retry, and later the screen
  is opened again offline.
\<close>

definition stranded_first :: frame where
  "stranded_first = fetchData sample_json offline (Some ''12'') (initial_screen, empty_disk)"

definition stranded_retry :: frame where
  "stranded_retry = retry sample_json online (Some ''12'') (world stranded_first)"

definition stranded_reload :: frame where
  "stranded_reload =
     fetchData sample_json offline (Some ''12'') (initial_screen, disk stranded_retry)"

section \<open>The phases of the load\<close>

lemma peel_simps [simp]: "peel (Normal a) = a" "peel (Thrown a) = a"
  by (simp_all add: peel_def)

lemma setup_audio_frame [simp]:
  "disk (setup_audio fr) = disk fr"
  "console (setup_audio fr) = console fr"
  "requests (setup_audio fr) = requests fr"
  "fromCache (setup_audio fr) = fromCache fr"
  "subcategory (ui (setup_audio fr)) = subcategory (ui fr)"
  "subcategoryDuas (ui (setup_audio fr)) = subcategoryDuas (ui fr)"
  "error (ui (setup_audio fr)) = error (ui fr)"
  "loading (ui (setup_audio fr)) = loading (ui fr)"
  unfolding setup_audio_def by (simp_all split: option.splits)

lemma load_cache_hit:
  assumes "reads_ok E k" and "cached_bundle J (disk fr) k = Some (sd, dd)"
  shows "load_cache J E k fr =
           Normal (fr\<lparr>ui := (ui fr)\<lparr>subcategory := Some sd, subcategoryDuas := dd\<rparr>,
                      console := console fr @ [cache_log],
                      subcategoryData := Some sd, duasData := Some dd, fromCache := True\<rparr>)"
  using assms
  unfolding load_cache_def getItem_def reads_ok_def cached_bundle_def cache_present_def
  by (simp split: option.splits if_splits)

lemma load_cache_miss:
  assumes "reads_ok E k" and "\<not> cache_present (disk fr) k"
  shows "load_cache J E k fr = Normal fr"
  using assms
  unfolding load_cache_def getItem_def reads_ok_def cache_present_def
  by auto

lemma load_cache_throws:
  assumes "\<not> reads_ok E k \<or> (cache_present (disk fr) k \<and> cached_bundle J (disk fr) k = None)"
  shows "\<exists>sd. load_cache J E k fr = Thrown (fr\<lparr>subcategoryData := sd\<rparr>)"
proof -
  have same: "fr\<lparr>subcategoryData := subcategoryData fr\<rparr> = fr" by simp
  show ?thesis
    using assms
    unfolding load_cache_def getItem_def reads_ok_def cached_bundle_def cache_present_def
    by (auto split: option.splits if_splits intro: exI [of _ "subcategoryData fr"])
qed

lemma network_success:
  assumes "remote_bundle J E k = Some (sd, dd)" and "writes_ok E k"
  shows "fetch_from_network J E k fr =
           Normal (fr\<lparr>ui := (if fromCache fr then ui fr
                              else (ui fr)\<lparr>subcategory := Some sd, subcategoryDuas := dd\<rparr>),
                      disk := (disk fr)\<lparr>
                        set_calls := set_calls (disk fr) @
                          [(subcategory_cache_key k, stringify_subcategory J sd),
                           (duas_cache_key k, stringify_duas J dd)],
                        items := (items (disk fr))
                          (subcategory_cache_key k \<mapsto> stringify_subcategory J sd,
                           duas_cache_key k \<mapsto> stringify_duas J dd)\<rparr>,
                      console := console fr @ [fresh_log],
                      requests := requests fr @ [subcategory_url E k, duas_url E k],
                      subcategoryData := Some sd, duasData := Some dd\<rparr>)"
  using assms
  unfolding fetch_from_network_def remote_bundle_def writes_ok_def save_to_cache_def setItem_def
  by (simp add: Let_def split: fetched.splits)

lemma network_failure:
  assumes "remote_bundle J E k = None"
  shows "ui (peel (fetch_from_network J E k fr)) = ui fr"
    and "disk (peel (fetch_from_network J E k fr)) = disk fr"
    and "console (peel (fetch_from_network J E k fr)) = console fr"
    and "fromCache (peel (fetch_from_network J E k fr)) = fromCache fr"
    and "duasData (peel (fetch_from_network J E k fr)) = duasData fr"
  using assms
  unfolding fetch_from_network_def remote_bundle_def
  by (simp_all add: Let_def split: fetched.splits)

lemma network_write_rejected:
  assumes "remote_bundle J E k = Some (sd, dd)" and "\<not> writes_ok E k"
  shows "\<exists>f. fetch_from_network J E k fr = Thrown f \<and> ui f = ui fr \<and>
             console f = console fr \<and> fromCache f = fromCache fr \<and>
             duasData f = Some dd"
  using assms
  unfolding fetch_from_network_def remote_bundle_def writes_ok_def save_to_cache_def setItem_def
  by (auto simp: Let_def split: fetched.splits)

lemma network_keeps_shown:
  assumes "fromCache fr"
  shows "ui (peel (fetch_from_network J E k fr)) = ui fr"
    and "fromCache (peel (fetch_from_network J E k fr))"
  using assms
  unfolding fetch_from_network_def save_to_cache_def setItem_def
  by (simp_all add: Let_def split: fetched.splits completion.splits)

lemma online_phase_peel:
  "ui (online_phase J E k fr) = ui (peel (fetch_from_network J E k fr))"
  "disk (online_phase J E k fr) = disk (peel (fetch_from_network J E k fr))"
  "fromCache (online_phase J E k fr) = fromCache (peel (fetch_from_network J E k fr))"
  "duasData (online_phase J E k fr) = duasData (peel (fetch_from_network J E k fr))"
  "requests (online_phase J E k fr) = requests (peel (fetch_from_network J E k fr))"
  unfolding online_phase_def by (simp_all split: completion.splits)



lemma truthy_Some [simp]: "truthy (Some k) = (k \<noteq> [])" "\<not> truthy None"
  by (simp_all add: truthy_def text_of_def)

lemma text_of_Some [simp]: "text_of (Some k) = k" "text_of None = []"
  by (simp_all add: text_of_def)

lemma cache_keys_distinct [simp]:
  "subcategory_cache_key k \<noteq> duas_cache_key k"
  "duas_cache_key k \<noteq> subcategory_cache_key k"
  by (simp_all add: subcategory_cache_key_def duas_cache_key_def)

lemma online_phase_no_fresh:
  assumes "remote_bundle J E k = None \<or> \<not> writes_ok E k"
  shows "(fresh_log \<in> set (console (online_phase J E k fr))) = (fresh_log \<in> set (console fr))"
proof (cases "remote_bundle J E k")
  case None
  from network_failure(3) [OF None, of fr]
  show ?thesis unfolding online_phase_def
    by (cases "fetch_from_network J E k fr") auto
next
  case (Some b)
  obtain sd dd where b: "b = (sd, dd)" by (cases b)
  from Some assms have w: "\<not> writes_ok E k" by simp
  from network_write_rejected [OF Some [unfolded b] w, of fr]
  show ?thesis unfolding online_phase_def by auto
qed

lemma fetchData_hit:
  assumes "k \<noteq> []" and "reads_ok E k" and "cached_bundle J d k = Some (sd, dd)"
  shows "subcategory (ui (fetchData J E (Some k) (scr, d))) = Some sd"
    and "subcategoryDuas (ui (fetchData J E (Some k) (scr, d))) = dd"
    and "error (ui (fetchData J E (Some k) (scr, d))) = None"
    and "loading (ui (fetchData J E (Some k) (scr, d))) = False"
    and "fromCache (fetchData J E (Some k) (scr, d))"
proof -
  let ?fr0 = "\<lparr>ui = scr\<lparr>loading := True, error := None\<rparr>, disk = d,
                 console = [], requests = [], subcategoryData = None, duasData = None,
                 fromCache = False\<rparr>"
  let ?F = "?fr0\<lparr>ui := (ui ?fr0)\<lparr>subcategory := Some sd, subcategoryDuas := dd\<rparr>,
                      console := console ?fr0 @ [cache_log],
                      subcategoryData := Some sd, duasData := Some dd, fromCache := True\<rparr>"
  have hit: "load_cache J E k ?fr0 = Normal ?F"
    using load_cache_hit [of E k J ?fr0 sd dd] assms by simp
  have F: "fromCache ?F" by simp
  note keep = network_keeps_shown [OF F, of J E k]
  show "subcategory (ui (fetchData J E (Some k) (scr, d))) = Some sd"
    and "subcategoryDuas (ui (fetchData J E (Some k) (scr, d))) = dd"
    and "error (ui (fetchData J E (Some k) (scr, d))) = None"
    and "loading (ui (fetchData J E (Some k) (scr, d))) = False"
    and "fromCache (fetchData J E (Some k) (scr, d))"
    unfolding fetchData_def using assms(1) keep
    by (simp_all add: hit Let_def online_phase_peel)
qed

lemma fetchData_hit_outcome:
  assumes "k \<noteq> []" and "reads_ok E k" and "cached_bundle J d k = Some (sd, dd)"
  shows "load_outcome (fetchData J E (Some k) (scr, d)) = Cached (sd, dd)"
  using fetchData_hit [OF assms, of scr]
  by (simp add: load_outcome_def shown_bundle_def)




subsection \<open>Whole runs of the load\<close>

lemma fetchData_no_id:
  assumes "\<not> truthy subcategoryId"
  shows "fetchData J E subcategoryId (scr, d) =
           \<lparr>ui = scr\<lparr>loading := False, error := Some no_id_message\<rparr>, disk = d,
            console = [], requests = [], subcategoryData = None, duasData = None,
            fromCache = False\<rparr>"
  using assms unfolding fetchData_def by (simp add: Let_def)

lemma load_cache_error [simp]:
  "error (ui (peel (load_cache J E k fr))) = error (ui fr)"
  unfolding load_cache_def getItem_def by (simp split: option.splits)

lemma network_error [simp]:
  "error (ui (peel (fetch_from_network J E k fr))) = error (ui fr)"
  unfolding fetch_from_network_def save_to_cache_def setItem_def
  by (simp add: Let_def split: fetched.splits completion.splits)

lemma network_requests:
  "subcategory_url E k \<in> set (requests (peel (fetch_from_network J E k fr)))"
  unfolding fetch_from_network_def save_to_cache_def setItem_def
  by (simp add: Let_def split: fetched.splits completion.splits)

lemma load_cache_normal:
  assumes "load_cache J E k fr = Normal f"
  shows "f = fr \<or> fromCache f"
  using assms unfolding load_cache_def
  by (auto split: promise.splits option.splits if_splits)

lemma fetchData_miss:
  assumes "k \<noteq> []" and "reads_ok E k" and "\<not> cache_present d k"
  shows "fetchData J E (Some k) (scr, d) =
     (let fr0 = \<lparr>ui = scr\<lparr>loading := True, error := None\<rparr>, disk = d,
                 console = [], requests = [], subcategoryData = None, duasData = None,
                 fromCache = False\<rparr>;
          fr3 = setup_audio
                  (if isConnected E then online_phase J E k fr0
                   else fr0\<lparr>ui := (ui fr0)\<lparr>error := Some offline_message\<rparr>\<rparr>)
      in fr3\<lparr>ui := (ui fr3)\<lparr>loading := False\<rparr>\<rparr>)"
proof -
  let ?fr0 = "\<lparr>ui = scr\<lparr>loading := True, error := None\<rparr>, disk = d,
                 console = [], requests = [], subcategoryData = None, duasData = None,
                 fromCache = False\<rparr>"
  have miss: "load_cache J E k ?fr0 = Normal ?fr0"
    using load_cache_miss [of E k ?fr0 J] assms by simp
  show ?thesis unfolding fetchData_def using assms(1) by (simp add: miss Let_def)
qed

lemma fetchData_throws:
  assumes "k \<noteq> []"
    and "\<not> reads_ok E k \<or> (cache_present d k \<and> cached_bundle J d k = None)"
  shows "ui (fetchData J E (Some k) (scr, d)) = scr\<lparr>loading := False, error := Some failed_message\<rparr>"
    and "disk (fetchData J E (Some k) (scr, d)) = d"
    and "requests (fetchData J E (Some k) (scr, d)) = []"
    and "fromCache (fetchData J E (Some k) (scr, d)) = False"
proof -
  let ?fr0 = "\<lparr>ui = scr\<lparr>loading := True, error := None\<rparr>, disk = d,
                 console = [], requests = [], subcategoryData = None, duasData = None,
                 fromCache = False\<rparr>"
  from load_cache_throws [of E k ?fr0 J] assms(2)
  obtain x where t: "load_cache J E k ?fr0 = Thrown (?fr0\<lparr>subcategoryData := x\<rparr>)" by auto
  show "ui (fetchData J E (Some k) (scr, d)) = scr\<lparr>loading := False, error := Some failed_message\<rparr>"
    and "disk (fetchData J E (Some k) (scr, d)) = d"
    and "requests (fetchData J E (Some k) (scr, d)) = []"
    and "fromCache (fetchData J E (Some k) (scr, d)) = False"
    unfolding fetchData_def using assms(1) by (simp_all add: t Let_def)
qed

lemma fetchData_miss_fresh:
  assumes "k \<noteq> []" and "reads_ok E k" and "\<not> cache_present d k" and "isConnected E"
    and "writes_ok E k" and "remote_bundle J E k = Some (sd, dd)"
  shows "subcategory (ui (fetchData J E (Some k) (scr, d))) = Some sd"
    and "subcategoryDuas (ui (fetchData J E (Some k) (scr, d))) = dd"
    and "error (ui (fetchData J E (Some k) (scr, d))) = None"
    and "fromCache (fetchData J E (Some k) (scr, d)) = False"
    and "console (fetchData J E (Some k) (scr, d)) = [fresh_log]"
    and "items (disk (fetchData J E (Some k) (scr, d))) =
           (items d)(subcategory_cache_key k \<mapsto> stringify_subcategory J sd,
                     duas_cache_key k \<mapsto> stringify_duas J dd)"
proof -
  let ?fr0 = "\<lparr>ui = scr\<lparr>loading := True, error := None\<rparr>, disk = d,
                 console = [], requests = [], subcategoryData = None, duasData = None,
                 fromCache = False\<rparr>"
  have miss: "load_cache J E k ?fr0 = Normal ?fr0"
    using load_cache_miss [of E k ?fr0 J] assms by simp
  note net = network_success [OF assms(6,5), of ?fr0]
  show "subcategory (ui (fetchData J E (Some k) (scr, d))) = Some sd"
    and "subcategoryDuas (ui (fetchData J E (Some k) (scr, d))) = dd"
    and "error (ui (fetchData J E (Some k) (scr, d))) = None"
    and "fromCache (fetchData J E (Some k) (scr, d)) = False"
    and "console (fetchData J E (Some k) (scr, d)) = [fresh_log]"
    and "items (disk (fetchData J E (Some k) (scr, d))) =
           (items d)(subcategory_cache_key k \<mapsto> stringify_subcategory J sd,
                     duas_cache_key k \<mapsto> stringify_duas J dd)"
    unfolding fetchData_def using assms(1,4)
    by (simp_all add: miss net Let_def online_phase_def)
qed

lemma fetchData_miss_fresh_outcome:
  assumes "k \<noteq> []" and "reads_ok E k" and "\<not> cache_present d k" and "isConnected E"
    and "writes_ok E k" and "remote_bundle J E k = Some (sd, dd)"
  shows "load_outcome (fetchData J E (Some k) (scr, d)) = Fresh (sd, dd)"
  using fetchData_miss_fresh [OF assms, of scr]
  by (simp add: load_outcome_def shown_bundle_def)

lemma fetchData_write_rejected:
  assumes "k \<noteq> []" and "reads_ok E k" and "\<not> cache_present d k" and "isConnected E"
    and "remote_bundle J E k = Some (sd, dd)" and "\<not> writes_ok E k"
  shows "error (ui (fetchData J E (Some k) (scr, d))) = None"
    and "subcategory (ui (fetchData J E (Some k) (scr, d))) = subcategory scr"
    and "subcategoryDuas (ui (fetchData J E (Some k) (scr, d))) = subcategoryDuas scr"
    and "load_outcome (fetchData J E (Some k) (scr, d)) = NoData"
proof -
  let ?fr0 = "\<lparr>ui = scr\<lparr>loading := True, error := None\<rparr>, disk = d,
                 console = [], requests = [], subcategoryData = None, duasData = None,
                 fromCache = False\<rparr>"
  from network_write_rejected [OF assms(5,6), of ?fr0]
  obtain f where f: "fetch_from_network J E k ?fr0 = Thrown f" "ui f = ui ?fr0"
    "console f = []" "fromCache f = False" by auto
  have nofresh: "fresh_log \<notin> set (console (online_phase J E k ?fr0))"
    using online_phase_no_fresh [of J E k ?fr0] assms(6) by simp
  show "error (ui (fetchData J E (Some k) (scr, d))) = None"
    and "subcategory (ui (fetchData J E (Some k) (scr, d))) = subcategory scr"
    and "subcategoryDuas (ui (fetchData J E (Some k) (scr, d))) = subcategoryDuas scr"
    and "load_outcome (fetchData J E (Some k) (scr, d)) = NoData"
    unfolding fetchData_miss [OF assms(1-3)] load_outcome_def
    using assms(4) f nofresh
    by (simp_all add: Let_def online_phase_peel)
qed

lemma fetchData_persists:
  assumes "k \<noteq> []" and "reads_ok E k" and "isConnected E" and "writes_ok E k"
    and "remote_bundle J E k = Some (sd, dd)"
    and "\<not> cache_present d k \<or> cached_bundle J d k \<noteq> None"
  shows "disk (fetchData J E (Some k) (scr, d)) =
           d\<lparr>set_calls := set_calls d @
                [(subcategory_cache_key k, stringify_subcategory J sd),
                 (duas_cache_key k, stringify_duas J dd)],
             items := (items d)
                (subcategory_cache_key k \<mapsto> stringify_subcategory J sd,
                 duas_cache_key k \<mapsto> stringify_duas J dd)\<rparr>"
proof -
  let ?fr0 = "\<lparr>ui = scr\<lparr>loading := True, error := None\<rparr>, disk = d,
                 console = [], requests = [], subcategoryData = None, duasData = None,
                 fromCache = False\<rparr>"
  have "\<exists>f. load_cache J E k ?fr0 = Normal f \<and> disk f = d"
  proof (cases "cache_present d k")
    case False
    then show ?thesis using load_cache_miss [of E k ?fr0 J] assms(2) by simp
  next
    case True
    with assms(6) obtain cs cd where "cached_bundle J d k = Some (cs, cd)" by auto
    then show ?thesis using load_cache_hit [of E k J ?fr0 cs cd] assms(2) by simp
  qed
  then obtain f where f: "load_cache J E k ?fr0 = Normal f" "disk f = d" by auto
  note net = network_success [OF assms(5,4), of f]
  show ?thesis
    unfolding fetchData_def using assms(1,3) f
    by (simp add: Let_def online_phase_def net)
qed

lemma fetchData_failure_disk:
  assumes "remote_bundle J E (text_of subcategoryId) = None"
  shows "disk (fetchData J E subcategoryId (scr, d)) = d"
proof (cases "truthy subcategoryId")
  case False
  then show ?thesis by (simp add: fetchData_no_id)
next
  case True
  let ?k = "text_of subcategoryId"
  let ?fr0 = "\<lparr>ui = scr\<lparr>loading := True, error := None\<rparr>, disk = d,
                 console = [], requests = [], subcategoryData = None, duasData = None,
                 fromCache = False\<rparr>"
  have c: "disk (peel (load_cache J E ?k ?fr0)) = d"
    unfolding load_cache_def getItem_def
    by (simp split: option.splits)
  show ?thesis
  proof (cases "load_cache J E ?k ?fr0")
    case (Thrown f)
    with c True show ?thesis unfolding fetchData_def by (simp add: Let_def)
  next
    case (Normal f)
    with c have f: "disk f = d" by simp
    from network_failure(2) [OF assms, of f] f
    have "disk (online_phase J E ?k f) = d" by (simp add: online_phase_peel)
    with Normal True f show ?thesis unfolding fetchData_def by (simp add: Let_def)
  qed
qed

lemma fresh_outcome_is_persisted:
  assumes "load_outcome (fetchData J E subcategoryId (scr, d)) = Fresh (sd, dd)"
  shows "items (disk (fetchData J E subcategoryId (scr, d)))
           (subcategory_cache_key (text_of subcategoryId)) = Some (stringify_subcategory J sd) \<and>
         items (disk (fetchData J E subcategoryId (scr, d)))
           (duas_cache_key (text_of subcategoryId)) = Some (stringify_duas J dd)"
proof -
  let ?k = "text_of subcategoryId"
  let ?fr0 = "\<lparr>ui = scr\<lparr>loading := True, error := None\<rparr>, disk = d,
                 console = [], requests = [], subcategoryData = None, duasData = None,
                 fromCache = False\<rparr>"
  have id: "truthy subcategoryId"
  proof (rule ccontr)
    assume "\<not> truthy subcategoryId"
    with assms show False by (simp add: fetchData_no_id load_outcome_def)
  qed
  show ?thesis
  proof (cases "load_cache J E ?k ?fr0")
    case (Thrown f)
    have "error (ui (peel (load_cache J E ?k ?fr0))) = None" by simp
    with Thrown have "error (ui f) = None" by simp
    with assms id Thrown show ?thesis
      unfolding fetchData_def by (simp add: Let_def load_outcome_def)
  next
    case (Normal f)
    from load_cache_normal [OF Normal] show ?thesis
    proof
      assume "fromCache f"
      from network_keeps_shown(2) [OF this, of J E ?k] \<open>fromCache f\<close>
      have "fromCache (fetchData J E subcategoryId (scr, d))"
        unfolding fetchData_def using id Normal
        by (simp add: Let_def online_phase_peel)
      with assms show ?thesis
        by (simp add: load_outcome_def split: if_splits option.splits)
    next
      assume f: "f = ?fr0"
      show ?thesis
      proof (cases "isConnected E")
        case False
        with assms id Normal f show ?thesis
          unfolding fetchData_def by (simp add: Let_def load_outcome_def)
      next
        case True
        have fd: "fetchData J E subcategoryId (scr, d) =
                    (setup_audio (online_phase J E ?k ?fr0))
                      \<lparr>ui := (ui (setup_audio (online_phase J E ?k ?fr0)))\<lparr>loading := False\<rparr>\<rparr>"
          unfolding fetchData_def using id Normal f True by (simp add: Let_def)
        show ?thesis
        proof (cases "remote_bundle J E ?k = None \<or> \<not> writes_ok E ?k")
          case True
          from online_phase_no_fresh [OF True, of ?fr0]
          have "fresh_log \<notin> set (console (online_phase J E ?k ?fr0))" by simp
          moreover have "\<not> fromCache (online_phase J E ?k ?fr0)"
          proof (cases "remote_bundle J E ?k")
            case None
            from network_failure(4) [OF None, of ?fr0] show ?thesis
              by (simp add: online_phase_peel)
          next
            case (Some b)
            obtain a c where b: "b = (a, c)" by (cases b)
            from Some True have w: "\<not> writes_ok E ?k" by simp
            from network_write_rejected [OF Some [unfolded b] w, of ?fr0]
            show ?thesis by (auto simp: online_phase_peel)
          qed
          ultimately show ?thesis using assms unfolding fd
            by (simp add: load_outcome_def split: if_splits)
        next
          case False
          then obtain a c where r: "remote_bundle J E ?k = Some (a, c)" and w: "writes_ok E ?k"
            by auto
          note net = network_success [OF r w, of ?fr0]
          from assms have "a = sd \<and> c = dd"
            unfolding fd load_outcome_def
            by (simp add: online_phase_def net shown_bundle_def)
          then show ?thesis unfolding fd
            by (simp add: online_phase_def net)
        qed
      qed
    qed
  qed
qed

subsection \<open>Keys written and read by the two handlers\<close>


lemma save_to_cache_frame:
  assumes "key \<noteq> subcategory_cache_key k" and "key \<noteq> duas_cache_key k"
  shows "items (peel (save_to_cache J E k sd dd d)) key = items d key"
  using assms unfolding save_to_cache_def setItem_def
  by (simp add: Let_def)




lemma retry_cache_disk [simp]: "disk (peel (retry_cache J E k fr)) = disk fr"
  unfolding retry_cache_def getItem_def by (simp add: Let_def split: option.splits)


lemma retry_network_failure:
  assumes "remote_bundle J E k = None"
  shows "\<exists>f. retry_network J E k fr = Thrown f \<and> ui f = ui fr \<and> disk f = disk fr"
  using assms unfolding retry_network_def remote_bundle_def
  by (simp add: Let_def split: fetched.splits)



lemma retry_failure_disk:
  assumes "remote_bundle J E (id_text subcategoryId) = None"
  shows "disk (retry J E subcategoryId (scr, d)) = d"
proof -
  let ?k = "id_text subcategoryId"
  let ?fr0 = "\<lparr>ui = scr\<lparr>loading := True, error := Some []\<rparr>, disk = d,
                 console = [], requests = [], subcategoryData = None, duasData = None,
                 fromCache = False\<rparr>"
  from retry_network_failure [OF assms, of ?fr0]
  obtain f where f: "retry_network J E ?k ?fr0 = Thrown f" "disk f = d" by auto
  let ?g = "f\<lparr>console := console f @ [''Network error in retry, trying cache:'']\<rparr>"
  have "disk (peel (retry_cache J E ?k ?g)) = d" using f(2) by simp
  then show ?thesis unfolding retry_def using f(1)
    by (cases "retry_cache J E ?k ?g") (simp_all add: Let_def)
qed

lemma retry_success:
  assumes "remote_bundle J E k = Some (sd, dd)" and "retry_writes_ok E k"
  shows "ui (retry J E (Some k) (scr, d)) =
           scr\<lparr>loading := False, error := Some [], subcategory := Some sd,
               subcategoryDuas := dd\<rparr>"
    and "disk (retry J E (Some k) (scr, d)) =
           d\<lparr>set_calls := set_calls d @
                [(retry_subcategory_key k, stringify_subcategory J sd),
                 (retry_duas_key k, stringify_duas J dd)],
             items := (items d)
                (retry_subcategory_key k \<mapsto> stringify_subcategory J sd,
                 retry_duas_key k \<mapsto> stringify_duas J dd)\<rparr>"
  using assms
  unfolding retry_def retry_network_def remote_bundle_def retry_writes_ok_def save_retry_def
    setItem_def id_text_def
  by (simp_all add: Let_def split: fetched.splits)

subsection \<open>Repeated loads\<close>

lemma concat_replicate_snoc: "concat (replicate n xs) @ xs = xs @ concat (replicate n xs)"
  by (induction n) simp_all

lemma loads_invariant:
  assumes "k \<noteq> []" and "reads_ok E k" and "isConnected E" and "writes_ok E k"
    and "remote_bundle J E k = Some (sd, dd)"
    and "\<not> cache_present d k \<or> cached_bundle J d k \<noteq> None"
    and "parse_subcategory J (stringify_subcategory J sd) = Some sd"
    and "parse_duas J (stringify_duas J dd) = Some dd"
  shows "(\<not> cache_present (snd (loads n J E (Some k) (scr, d))) k \<or>
          cached_bundle J (snd (loads n J E (Some k) (scr, d))) k \<noteq> None) \<and>
         (0 < n \<longrightarrow> items (snd (loads n J E (Some k) (scr, d))) =
           (items d)(subcategory_cache_key k \<mapsto> stringify_subcategory J sd,
                     duas_cache_key k \<mapsto> stringify_duas J dd)) \<and>
         set_calls (snd (loads n J E (Some k) (scr, d))) =
           set_calls d @ concat (replicate n
             [(subcategory_cache_key k, stringify_subcategory J sd),
              (duas_cache_key k, stringify_duas J dd)])"
proof (induction n)
  case 0
  show ?case using assms(6) by simp
next
  case (Suc n)
  obtain s' d' where w: "loads n J E (Some k) (scr, d) = (s', d')"
    by (cases "loads n J E (Some k) (scr, d)")
  note ih = Suc.IH [unfolded w snd_conv]
  note inv = ih [THEN conjunct1]
  note its = ih [THEN conjunct2, THEN conjunct1]
  note calls = ih [THEN conjunct2, THEN conjunct2]
  note p = fetchData_persists [OF assms(1-5) inv, of s']
  have again: "((items d)(subcategory_cache_key k \<mapsto> a, duas_cache_key k \<mapsto> b))
                 (subcategory_cache_key k \<mapsto> a, duas_cache_key k \<mapsto> b) =
               (items d)(subcategory_cache_key k \<mapsto> a, duas_cache_key k \<mapsto> b)" for a b
    by (rule ext) simp
  have i: "items (snd (loads (Suc n) J E (Some k) (scr, d))) =
           (items d)(subcategory_cache_key k \<mapsto> stringify_subcategory J sd,
                     duas_cache_key k \<mapsto> stringify_duas J dd)"
  proof (cases "0 < n")
    case True
    note e = its [rule_format, OF True]
    have "items (snd (loads (Suc n) J E (Some k) (scr, d))) =
            (items d')(subcategory_cache_key k \<mapsto> stringify_subcategory J sd,
                       duas_cache_key k \<mapsto> stringify_duas J dd)"
      by (simp add: w world_def p)
    also have "\<dots> = (items d)(subcategory_cache_key k \<mapsto> stringify_subcategory J sd,
                                duas_cache_key k \<mapsto> stringify_duas J dd)"
      unfolding e by (rule again)
    finally show ?thesis .
  next
    case False
    then have "n = 0" by simp
    with w have "d' = d" by simp
    then show ?thesis using p by (simp add: w world_def)
  qed
  have c: "set_calls (snd (loads (Suc n) J E (Some k) (scr, d))) =
           set_calls d @ concat (replicate (Suc n)
             [(subcategory_cache_key k, stringify_subcategory J sd),
              (duas_cache_key k, stringify_duas J dd)])"
    using calls by (simp add: w world_def p concat_replicate_snoc)
  have v: "\<not> cache_present (snd (loads (Suc n) J E (Some k) (scr, d))) k \<or>
          cached_bundle J (snd (loads (Suc n) J E (Some k) (scr, d))) k \<noteq> None"
    using i assms(7,8) by (simp add: cached_bundle_def cache_present_def)
  from i c v show ?case by blast
qed

subsection \<open>Facts about the concrete run\<close>

lemmas sample_defs = sample_json_def online_def offline_def serving_def empty_disk_def
  evening_disk_def corrupt_disk_def reads_ok_def writes_ok_def cache_present_def cached_bundle_def
  remote_bundle_def fetch_json_def subcategory_cache_key_def duas_cache_key_def
  subcategory_url_def duas_url_def

lemma sample_reads [simp]: "reads_ok online k" "reads_ok offline k" "writes_ok online k"
  by (simp_all add: reads_ok_def writes_ok_def online_def offline_def)

lemma sample_evening [simp]: "cached_bundle sample_json evening_disk ''12'' = Some (evening, [])"
  by (simp add: sample_defs)

lemma sample_remote [simp]: "remote_bundle sample_json online ''12'' = Some (morning, [waking])"
  by (simp add: sample_defs)

lemmas sample_envs = unreadable_def unwritable_def unreachable_server_def metadata_only_def
  retry_cache_present_def retry_reads_ok_def retry_writes_ok_def
  retry_subcategory_key_def retry_duas_key_def

lemma sample_corrupt [simp]:
  "cache_present corrupt_disk ''12''" "cached_bundle sample_json corrupt_disk ''12'' = None"
  by (simp_all add: sample_defs)

lemma sample_empty [simp]: "\<not> cache_present empty_disk k"
  by (simp add: cache_present_def empty_disk_def)

lemma sample_retry_empty [simp]: "\<not> retry_cache_present empty_disk k"
  by (simp add: retry_cache_present_def empty_disk_def)

lemma sample_remote_others [simp]:
  "remote_bundle sample_json unwritable ''12'' = Some (morning, [waking])"
  "remote_bundle sample_json unreadable ''12'' = Some (morning, [waking])"
  "remote_bundle sample_json offline k = None"
  "remote_bundle sample_json unreachable_server k = None"
  "remote_bundle sample_json metadata_only ''12'' = None"
  by (simp_all add: sample_defs sample_envs)

lemma sample_flags [simp]:
  "isConnected online" "\<not> isConnected offline" "isConnected unwritable" "isConnected unreadable"
  "isConnected unreachable_server" "isConnected metadata_only"
  "reads_ok unwritable k" "\<not> writes_ok unwritable k" "\<not> reads_ok unreadable k"
  "reads_ok unreachable_server k" "reads_ok metadata_only k"
  "retry_reads_ok offline k" "retry_reads_ok online k" "retry_writes_ok online k"
  by (simp_all add: sample_defs sample_envs)


section \<open>Properties of the loader\<close>

text \<open>
  C1. When both cached values of a key are present and deserialize, and the two
  reads resolve, the load ends with the cached bundle in the state and no error:
  the outcome is \<open>Cached\<close> with exactly the stored bundle. This holds in every
  environment, whatever the connectivity, the responses and the fate of the
  writes; a fetch that succeeds with other data changes the store, not the state.
\<close>

theorem cached_entry_is_surfaced:
  assumes "k \<noteq> []" and "reads_ok E k" and "cached_bundle J d k = Some (sd, dd)"
  shows "load_outcome (fetchData J E (Some k) (scr, d)) = Cached (sd, dd) \<and>
         subcategory (ui (fetchData J E (Some k) (scr, d))) = Some sd \<and>
         subcategoryDuas (ui (fetchData J E (Some k) (scr, d))) = dd \<and>
         error (ui (fetchData J E (Some k) (scr, d))) = None"
  using fetchData_hit [OF assms, of scr] fetchData_hit_outcome [OF assms, of scr]
  by simp

theorem cached_entry_is_surfaced_witness:
  "''12'' \<noteq> [] \<and> reads_ok online ''12'' \<and>
   cached_bundle sample_json evening_disk ''12'' = Some (evening, []) \<and>
   remote_bundle sample_json online ''12'' = Some (morning, [waking]) \<and>
   load_outcome (fetchData sample_json online (Some ''12'') (initial_screen, evening_disk)) =
     Cached (evening, []) \<and>
   subcategory (ui (fetchData sample_json online (Some ''12'') (initial_screen, evening_disk))) =
     Some evening \<and>
   subcategoryDuas (ui (fetchData sample_json online (Some ''12'') (initial_screen, evening_disk))) = [] \<and>
   error (ui (fetchData sample_json online (Some ''12'') (initial_screen, evening_disk))) = None"
  using cached_entry_is_surfaced
          [of "''12''" online sample_json evening_disk evening "[]" initial_screen]
  by simp

text \<open>
  C2 (as amended). On a cache miss, with the device reachable, both requests
  answered with an ok status and a body that parses, and the storage reads and
  both cache writes resolving, the load shows the fetched bundle with no error
  and ends \<open>Fresh\<close>. Provided the serialized texts parse back to the values they
  came from (and are not empty), a following load of the same key on the storage
  the first one left, without connectivity and starting from any screen state,
  shows the same bundle and ends \<open>Cached\<close>.
\<close>

theorem fresh_then_cached_offline:
  assumes "k \<noteq> []" and "\<not> cache_present d k"
    and "isConnected E" and "reads_ok E k" and "writes_ok E k"
    and "remote_bundle J E k = Some (sd, dd)"
    and "parse_subcategory J (stringify_subcategory J sd) = Some sd"
    and "stringify_subcategory J sd \<noteq> []"
    and "parse_duas J (stringify_duas J dd) = Some dd"
    and "stringify_duas J dd \<noteq> []"
    and "\<not> isConnected E'" and "reads_ok E' k"
  shows "load_outcome (fetchData J E (Some k) (scr, d)) = Fresh (sd, dd) \<and>
         subcategory (ui (fetchData J E (Some k) (scr, d))) = Some sd \<and>
         subcategoryDuas (ui (fetchData J E (Some k) (scr, d))) = dd \<and>
         error (ui (fetchData J E (Some k) (scr, d))) = None \<and>
         load_outcome (fetchData J E' (Some k) (scr', disk (fetchData J E (Some k) (scr, d)))) =
           Cached (sd, dd) \<and>
         subcategory (ui (fetchData J E' (Some k) (scr', disk (fetchData J E (Some k) (scr, d))))) =
           Some sd \<and>
         subcategoryDuas (ui (fetchData J E' (Some k) (scr', disk (fetchData J E (Some k) (scr, d))))) =
           dd \<and>
         error (ui (fetchData J E' (Some k) (scr', disk (fetchData J E (Some k) (scr, d))))) = None"
proof -
  let ?fr = "fetchData J E (Some k) (scr, d)"
  note first = fetchData_miss_fresh [OF assms(1,4,2,3,5,6), of scr]
  have fresh: "load_outcome ?fr = Fresh (sd, dd)"
    using fetchData_miss_fresh_outcome [OF assms(1,4,2,3,5,6)] .
  have stored: "items (disk ?fr) =
      (items d)(subcategory_cache_key k \<mapsto> stringify_subcategory J sd,
                duas_cache_key k \<mapsto> stringify_duas J dd)"
    using first(6) .
  have hit: "cached_bundle J (disk ?fr) k = Some (sd, dd)"
    unfolding cached_bundle_def cache_present_def stored
    using assms(7-10) by simp
  note second = fetchData_hit [OF assms(1) assms(12) hit, of scr']
  have cached: "load_outcome (fetchData J E' (Some k) (scr', disk ?fr)) = Cached (sd, dd)"
    using fetchData_hit_outcome [OF assms(1) assms(12) hit] .
  from fresh first(1-3) cached second(1-3) show ?thesis by simp
qed

theorem fresh_then_cached_offline_witness:
  "''12'' \<noteq> [] \<and> \<not> cache_present empty_disk ''12'' \<and> isConnected online \<and>
   reads_ok online ''12'' \<and> writes_ok online ''12'' \<and>
   remote_bundle sample_json online ''12'' = Some (morning, [waking]) \<and>
   parse_subcategory sample_json (stringify_subcategory sample_json morning) = Some morning \<and>
   stringify_subcategory sample_json morning \<noteq> [] \<and>
   parse_duas sample_json (stringify_duas sample_json [waking]) = Some [waking] \<and>
   stringify_duas sample_json [waking] \<noteq> [] \<and>
   \<not> isConnected offline \<and> reads_ok offline ''12'' \<and>
   load_outcome (fetchData sample_json online (Some ''12'') (initial_screen, empty_disk)) =
     Fresh (morning, [waking]) \<and>
   load_outcome (fetchData sample_json offline (Some ''12'')
       (initial_screen,
        disk (fetchData sample_json online (Some ''12'') (initial_screen, empty_disk)))) =
     Cached (morning, [waking]) \<and>
   subcategoryDuas (ui (fetchData sample_json offline (Some ''12'')
       (initial_screen,
        disk (fetchData sample_json online (Some ''12'') (initial_screen, empty_disk))))) =
     [waking]"
proof -
  have rt: "parse_subcategory sample_json (stringify_subcategory sample_json morning) = Some morning"
    "stringify_subcategory sample_json morning \<noteq> []"
    "parse_duas sample_json (stringify_duas sample_json [waking]) = Some [waking]"
    "stringify_duas sample_json [waking] \<noteq> []"
    by (simp_all add: sample_json_def morning_def waking_def)
  from fresh_then_cached_offline
         [of "''12''" empty_disk online sample_json morning "[waking]" offline
             initial_screen initial_screen] rt
  show ?thesis by simp
qed

text \<open>
  The claim as stated fails: with no cache entry, the device reachable and both
  requests answered with parseable bodies, a load whose cache writes reject shows
  no bundle, and the offline load that follows on a fresh screen ends
  \<open>Unavailable\<close>.
\<close>

theorem fetch_success_without_write_not_fresh:
  "\<not> cache_present empty_disk ''12'' \<and> isConnected unwritable \<and>
   remote_bundle sample_json unwritable ''12'' = Some (morning, [waking]) \<and>
   load_outcome (fetchData sample_json unwritable (Some ''12'') (initial_screen, empty_disk)) \<noteq>
     Fresh (morning, [waking]) \<and>
   subcategory (ui (fetchData sample_json unwritable (Some ''12'') (initial_screen, empty_disk))) =
     None \<and>
   load_outcome (fetchData sample_json offline (Some ''12'')
       (initial_screen,
        disk (fetchData sample_json unwritable (Some ''12'') (initial_screen, empty_disk)))) =
     Unavailable offline_message"
proof -
  let ?fr = "fetchData sample_json unwritable (Some ''12'') (initial_screen, empty_disk)"
  have keys: "subcategory_cache_key ''12'' = ''subcategory_12_cache''"
    by (simp add: subcategory_cache_key_def)
  have none: "load_outcome ?fr = NoData" and shown: "subcategory (ui ?fr) = None"
    by (simp_all add: fetchData_write_rejected initial_screen_def)
  have "items (disk ?fr) (subcategory_cache_key ''12'') = None"
    unfolding fetchData_def online_phase_def fetch_from_network_def save_to_cache_def
      setItem_def load_cache_def getItem_def fetch_json_def setup_audio_def
    by (simp add: Let_def unwritable_def serving_def sample_json_def empty_disk_def
          subcategory_cache_key_def duas_cache_key_def subcategory_url_def duas_url_def)
  then have miss: "\<not> cache_present (disk ?fr) ''12''"
    by (simp add: cache_present_def)
  have "load_outcome (fetchData sample_json offline (Some ''12'') (initial_screen, disk ?fr)) =
          Unavailable offline_message"
    unfolding load_outcome_def using miss by (simp add: fetchData_miss Let_def)
  with none shown show ?thesis by simp
qed

text \<open>
  C3 (as amended). On a cache miss with the reads resolving and the device not
  reachable, the load sets the error to the offline message of the source,
  \<open>No internet connection and no cached data available. Please connect to the
  internet and try again.\<close>, which is the \<open>Unavailable\<close> outcome. It is one of
  three error messages the load sets: a missing or empty id gives
  \<open>No subcategory ID found\<close>; a storage read that rejects, or a cache entry that
  is present and does not parse, gives \<open>Failed to load duas. Please try again
  later.\<close>; and for every input the final error is null or one of these three.
\<close>

theorem offline_miss_is_unavailable:
  "(k \<noteq> [] \<and> reads_ok E k \<and> \<not> cache_present d k \<and> \<not> isConnected E \<longrightarrow>
      error (ui (fetchData J E (Some k) (scr, d))) = Some offline_message \<and>
      load_outcome (fetchData J E (Some k) (scr, d)) = Unavailable offline_message) \<and>
   (\<not> truthy subcategoryId \<longrightarrow>
      error (ui (fetchData J E subcategoryId (scr, d))) = Some no_id_message \<and>
      load_outcome (fetchData J E subcategoryId (scr, d)) = Failed no_id_message) \<and>
   (k \<noteq> [] \<and> (\<not> reads_ok E k \<or> (cache_present d k \<and> cached_bundle J d k = None)) \<longrightarrow>
      error (ui (fetchData J E (Some k) (scr, d))) = Some failed_message \<and>
      load_outcome (fetchData J E (Some k) (scr, d)) = Failed failed_message) \<and>
   error (ui (fetchData J E subcategoryId (scr, d))) \<in>
      {None, Some no_id_message, Some failed_message, Some offline_message}"
proof (intro conjI)
  show "k \<noteq> [] \<and> reads_ok E k \<and> \<not> cache_present d k \<and> \<not> isConnected E \<longrightarrow>
      error (ui (fetchData J E (Some k) (scr, d))) = Some offline_message \<and>
      load_outcome (fetchData J E (Some k) (scr, d)) = Unavailable offline_message"
  proof
    assume a: "k \<noteq> [] \<and> reads_ok E k \<and> \<not> cache_present d k \<and> \<not> isConnected E"
    then have m: "k \<noteq> []" "reads_ok E k" "\<not> cache_present d k" and off: "\<not> isConnected E"
      by simp_all
    show "error (ui (fetchData J E (Some k) (scr, d))) = Some offline_message \<and>
      load_outcome (fetchData J E (Some k) (scr, d)) = Unavailable offline_message"
      unfolding fetchData_miss [OF m] load_outcome_def using off
      by (simp add: Let_def)
  qed
next
  show "\<not> truthy subcategoryId \<longrightarrow>
      error (ui (fetchData J E subcategoryId (scr, d))) = Some no_id_message \<and>
      load_outcome (fetchData J E subcategoryId (scr, d)) = Failed no_id_message"
    by (simp add: fetchData_no_id load_outcome_def)
next
  show "k \<noteq> [] \<and> (\<not> reads_ok E k \<or> (cache_present d k \<and> cached_bundle J d k = None)) \<longrightarrow>
      error (ui (fetchData J E (Some k) (scr, d))) = Some failed_message \<and>
      load_outcome (fetchData J E (Some k) (scr, d)) = Failed failed_message"
  proof
    assume b: "k \<noteq> [] \<and> (\<not> reads_ok E k \<or> (cache_present d k \<and> cached_bundle J d k = None))"
    then have k: "k \<noteq> []"
      and bad: "\<not> reads_ok E k \<or> (cache_present d k \<and> cached_bundle J d k = None)"
      by simp_all
    note t = fetchData_throws [OF k bad, of scr]
    show "error (ui (fetchData J E (Some k) (scr, d))) = Some failed_message \<and>
      load_outcome (fetchData J E (Some k) (scr, d)) = Failed failed_message"
      unfolding load_outcome_def using t by simp
  qed
next
  let ?k = "text_of subcategoryId"
  let ?fr0 = "\<lparr>ui = scr\<lparr>loading := True, error := None\<rparr>, disk = d,
                 console = [], requests = [], subcategoryData = None, duasData = None,
                 fromCache = False\<rparr>"
  show "error (ui (fetchData J E subcategoryId (scr, d))) \<in>
      {None, Some no_id_message, Some failed_message, Some offline_message}"
  proof (cases "truthy subcategoryId")
    case False
    then show ?thesis by (simp add: fetchData_no_id)
  next
    case True
    have c: "error (ui (peel (load_cache J E ?k ?fr0))) = None" by simp
    show ?thesis
    proof (cases "load_cache J E ?k ?fr0")
      case (Thrown f)
      with True show ?thesis unfolding fetchData_def by (simp add: Let_def)
    next
      case (Normal f)
      with c have f: "error (ui f) = None" by simp
      have "error (ui (online_phase J E ?k f)) = None"
        using f by (simp add: online_phase_peel)
      with Normal True f show ?thesis unfolding fetchData_def by (simp add: Let_def)
    qed
  qed
qed

theorem offline_miss_is_unavailable_witness:
  "''12'' \<noteq> [] \<and> reads_ok offline ''12'' \<and> \<not> cache_present empty_disk ''12'' \<and>
   \<not> isConnected offline \<and>
   error (ui (fetchData sample_json offline (Some ''12'') (initial_screen, empty_disk))) =
     Some offline_message \<and>
   load_outcome (fetchData sample_json offline (Some ''12'') (initial_screen, empty_disk)) =
     Unavailable offline_message \<and>
   \<not> truthy None \<and>
   error (ui (fetchData sample_json offline None (initial_screen, empty_disk))) =
     Some no_id_message \<and>
   \<not> truthy (Some []) \<and>
   error (ui (fetchData sample_json online (Some []) (initial_screen, corrupt_disk))) =
     Some no_id_message \<and>
   cache_present corrupt_disk ''12'' \<and> cached_bundle sample_json corrupt_disk ''12'' = None \<and>
   error (ui (fetchData sample_json online (Some ''12'') (initial_screen, corrupt_disk))) =
     Some failed_message \<and>
   \<not> reads_ok unreadable ''12'' \<and>
   error (ui (fetchData sample_json unreadable (Some ''12'') (initial_screen, evening_disk))) =
     Some failed_message"
  using offline_miss_is_unavailable
          [of "''12''" offline empty_disk sample_json initial_screen None]
        offline_miss_is_unavailable
          [of "''12''" online corrupt_disk sample_json initial_screen "Some []"]
        offline_miss_is_unavailable
          [of "''12''" unreadable evening_disk sample_json initial_screen None]
  by simp

text \<open>
  The claim as stated fails: the reason is not the quoted text, and a load can
  end in an error that is not \<open>Unavailable\<close>, here on a malformed cache entry and
  on a missing id.
\<close>

theorem unavailable_not_only_error:
  "load_outcome (fetchData sample_json offline (Some ''12'') (initial_screen, empty_disk)) \<noteq>
     Unavailable ''no internet connection and no cached data available'' \<and>
   load_outcome (fetchData sample_json offline (Some ''12'') (initial_screen, corrupt_disk)) =
     Failed failed_message \<and>
   load_outcome (fetchData sample_json offline None (initial_screen, empty_disk)) =
     Failed no_id_message"
proof -
  have a: "load_outcome (fetchData sample_json offline (Some ''12'') (initial_screen, empty_disk)) =
     Unavailable offline_message"
    unfolding load_outcome_def
    by (simp add: fetchData_miss Let_def)
  have b: "load_outcome (fetchData sample_json offline (Some ''12'') (initial_screen, corrupt_disk)) =
     Failed failed_message"
    unfolding load_outcome_def
    by (simp add: fetchData_throws)
  have c: "load_outcome (fetchData sample_json offline None (initial_screen, empty_disk)) =
     Failed no_id_message"
    unfolding load_outcome_def
    by (simp add: fetchData_no_id)
  from a b c show ?thesis by simp
qed

text \<open>
  C4. The retry handler does persist before it shows, but under the keys
  \<open>subcategory_12\<close> and \<open>duas_12\<close>, which the load never reads. In the session
  \<open>stranded\<close> the first load finds nothing and no network; the retry fetches and
  shows the bundle; the entry the load reads is still absent, and the next
  offline load ends \<open>Unavailable\<close> although a fetch for the key has succeeded.
  (For the load itself, \<open>fresh_outcome_is_persisted\<close> above shows that a bundle
  is only shown as \<open>Fresh\<close> after both of its texts are stored.)
\<close>

theorem retry_leaves_load_cache_empty:
  "load_outcome stranded_first = Unavailable offline_message \<and>
   remote_bundle sample_json online ''12'' = Some (morning, [waking]) \<and>
   shown_bundle (ui stranded_retry) = Some (morning, [waking]) \<and>
   set_calls (disk stranded_retry) =
     [(''subcategory_12'', ''{name:Morning}''), (''duas_12'', ''[Waking]'')] \<and>
   \<not> cache_present (disk stranded_retry) ''12'' \<and>
   load_outcome stranded_reload = Unavailable offline_message"
proof -
  have first: "load_outcome stranded_first = Unavailable offline_message"
    and d1: "disk stranded_first = empty_disk"
    unfolding stranded_first_def load_outcome_def
    by (simp_all add: fetchData_miss Let_def)
  have w: "world stranded_first = (ui stranded_first, empty_disk)"
    by (simp add: world_def d1)
  note r = retry_success [of sample_json online "''12''" morning "[waking]"
      "ui stranded_first" empty_disk]
  have rw: "retry_writes_ok online ''12''" by simp
  have shown: "shown_bundle (ui stranded_retry) = Some (morning, [waking])"
    unfolding stranded_retry_def w by (simp add: r shown_bundle_def)
  have d2: "disk stranded_retry =
      empty_disk\<lparr>set_calls := [(''subcategory_12'', ''{name:Morning}''), (''duas_12'', ''[Waking]'')],
                 items := [''subcategory_12'' \<mapsto> ''{name:Morning}'', ''duas_12'' \<mapsto> ''[Waking]'']\<rparr>"
  proof -
    have texts: "stringify_subcategory sample_json morning = ''{name:Morning}''"
      "stringify_duas sample_json [waking] = ''[Waking]''"
      by (simp_all add: sample_json_def morning_def waking_def)
    have keys: "retry_subcategory_key ''12'' = ''subcategory_12''"
      "retry_duas_key ''12'' = ''duas_12''"
      by (simp_all add: retry_subcategory_key_def retry_duas_key_def)
    have blank: "items empty_disk = Map.empty" "set_calls empty_disk = []"
      by (simp_all add: empty_disk_def)
    show ?thesis
      unfolding stranded_retry_def w r(2) [OF sample_remote rw] texts keys blank
      by simp
  qed
  have miss: "\<not> cache_present (disk stranded_retry) ''12''"
    unfolding d2 by (simp add: cache_present_def subcategory_cache_key_def)
  have reload: "load_outcome stranded_reload = Unavailable offline_message"
    unfolding stranded_reload_def load_outcome_def using miss
    by (simp add: fetchData_miss Let_def)
  from first shown d2 miss reload show ?thesis by simp
qed

text \<open>
  C5. When the fetch does not succeed at both stages (a request throws, a
  response is not ok, or a body does not parse, at the subcategory or at the
  duas stage), the storage after the load is the storage before it: no item
  changes and no \<open>setItem\<close> call is made. The same holds for the retry handler.
\<close>

theorem failed_fetch_keeps_cache:
  "(remote_bundle J E (text_of subcategoryId) = None \<longrightarrow>
      disk (fetchData J E subcategoryId (scr, d)) = d) \<and>
   (remote_bundle J E (id_text subcategoryId) = None \<longrightarrow>
      disk (retry J E subcategoryId (scr, d)) = d)"
  using fetchData_failure_disk [of J E subcategoryId scr d] retry_failure_disk [of J E subcategoryId scr d]
  by simp

theorem failed_fetch_keeps_cache_witness:
  "remote_bundle sample_json metadata_only (text_of (Some ''12'')) = None \<and>
   disk (fetchData sample_json metadata_only (Some ''12'') (initial_screen, evening_disk)) =
     evening_disk \<and>
   cached_bundle sample_json
     (disk (fetchData sample_json metadata_only (Some ''12'') (initial_screen, evening_disk)))
     ''12'' = Some (evening, []) \<and>
   remote_bundle sample_json unreachable_server (id_text (Some ''12'')) = None \<and>
   disk (retry sample_json unreachable_server (Some ''12'') (initial_screen, evening_disk)) =
     evening_disk"
  using failed_fetch_keeps_cache
          [of sample_json metadata_only "Some ''12''" initial_screen evening_disk]
        failed_fetch_keeps_cache
          [of sample_json unreachable_server "Some ''12''" initial_screen evening_disk]
  by (simp add: id_text_def)

text \<open>
  C6 (as amended). If a cached value is absent or empty, the load treats it as a
  miss and, when connected, goes on to request the subcategory, with no error of
  its own. If both values are present but one does not parse, or a storage read
  rejects, the load does not go on: it makes no request, leaves the storage as
  it was, and ends with the error \<open>Failed to load duas. Please try again later.\<close>
\<close>

theorem bad_cache_read_fails_load:
  assumes "k \<noteq> []"
  shows "(reads_ok E k \<and> \<not> cache_present d k \<and> isConnected E \<longrightarrow>
            subcategory_url E k \<in> set (requests (fetchData J E (Some k) (scr, d))) \<and>
            error (ui (fetchData J E (Some k) (scr, d))) = None) \<and>
         (\<not> reads_ok E k \<or> (cache_present d k \<and> cached_bundle J d k = None) \<longrightarrow>
            load_outcome (fetchData J E (Some k) (scr, d)) = Failed failed_message \<and>
            requests (fetchData J E (Some k) (scr, d)) = [] \<and>
            disk (fetchData J E (Some k) (scr, d)) = d)"
proof (intro conjI impI)
  assume a: "reads_ok E k \<and> \<not> cache_present d k \<and> isConnected E"
  then have m: "reads_ok E k" "\<not> cache_present d k" and on: "isConnected E" by simp_all
  show "subcategory_url E k \<in> set (requests (fetchData J E (Some k) (scr, d)))"
    unfolding fetchData_miss [OF assms m] using on network_requests [of E k J]
    by (simp add: Let_def online_phase_peel)
  show "error (ui (fetchData J E (Some k) (scr, d))) = None"
    unfolding fetchData_miss [OF assms m] using on
    by (simp add: Let_def online_phase_peel)
next
  assume b: "\<not> reads_ok E k \<or> (cache_present d k \<and> cached_bundle J d k = None)"
  note t = fetchData_throws [OF assms b, of scr]
  show "load_outcome (fetchData J E (Some k) (scr, d)) = Failed failed_message"
    unfolding load_outcome_def using t by simp
  show "requests (fetchData J E (Some k) (scr, d)) = []" using t by simp
  show "disk (fetchData J E (Some k) (scr, d)) = d" using t by simp
qed

theorem bad_cache_read_fails_load_witness:
  "''12'' \<noteq> [] \<and> reads_ok online ''12'' \<and> \<not> cache_present empty_disk ''12'' \<and>
   isConnected online \<and>
   subcategory_url online ''12'' \<in>
     set (requests (fetchData sample_json online (Some ''12'') (initial_screen, empty_disk))) \<and>
   error (ui (fetchData sample_json online (Some ''12'') (initial_screen, empty_disk))) = None \<and>
   cache_present corrupt_disk ''12'' \<and> cached_bundle sample_json corrupt_disk ''12'' = None \<and>
   load_outcome (fetchData sample_json online (Some ''12'') (initial_screen, corrupt_disk)) =
     Failed failed_message \<and>
   requests (fetchData sample_json online (Some ''12'') (initial_screen, corrupt_disk)) = [] \<and>
   disk (fetchData sample_json online (Some ''12'') (initial_screen, corrupt_disk)) = corrupt_disk"
  using bad_cache_read_fails_load [of "''12''" online empty_disk sample_json initial_screen]
    bad_cache_read_fails_load [of "''12''" online corrupt_disk sample_json initial_screen]
  by simp

text \<open>
  The claim as stated fails: with a malformed entry, or with reads that reject,
  a connected device whose server would answer makes no request and shows the
  failure message.
\<close>

theorem bad_cache_read_is_not_a_miss:
  "cache_present corrupt_disk ''12'' \<and> cached_bundle sample_json corrupt_disk ''12'' = None \<and>
   isConnected online \<and> remote_bundle sample_json online ''12'' = Some (morning, [waking]) \<and>
   load_outcome (fetchData sample_json online (Some ''12'') (initial_screen, corrupt_disk)) =
     Failed failed_message \<and>
   requests (fetchData sample_json online (Some ''12'') (initial_screen, corrupt_disk)) = [] \<and>
   isConnected unreadable \<and> remote_bundle sample_json unreadable ''12'' = Some (morning, [waking]) \<and>
   load_outcome (fetchData sample_json unreadable (Some ''12'') (initial_screen, empty_disk)) =
     Failed failed_message \<and>
   requests (fetchData sample_json unreadable (Some ''12'') (initial_screen, empty_disk)) = []"
  unfolding load_outcome_def
  by (simp add: fetchData_throws)

text \<open>
  C7 (as amended). When both requests succeed and a cache write rejects, the
  rejection is swallowed: no error is set. On a cache hit the outcome is the
  \<open>Cached\<close> bundle, as it would be had the write resolved. On a cache miss the
  fetched bundle is not shown: subcategory and list stay as they were and the
  load ends with neither a bundle nor an error.
\<close>

theorem rejected_write_hides_fresh:
  assumes "k \<noteq> []" and "reads_ok E k" and "isConnected E"
    and "remote_bundle J E k = Some (sd, dd)" and "\<not> writes_ok E k"
  shows "(cached_bundle J d k = Some (cs, cd) \<longrightarrow>
            error (ui (fetchData J E (Some k) (scr, d))) = None \<and>
            load_outcome (fetchData J E (Some k) (scr, d)) = Cached (cs, cd)) \<and>
         (\<not> cache_present d k \<longrightarrow>
            error (ui (fetchData J E (Some k) (scr, d))) = None \<and>
            subcategory (ui (fetchData J E (Some k) (scr, d))) = subcategory scr \<and>
            subcategoryDuas (ui (fetchData J E (Some k) (scr, d))) = subcategoryDuas scr \<and>
            load_outcome (fetchData J E (Some k) (scr, d)) = NoData)"
  using fetchData_hit(3) [OF assms(1,2), of J d cs cd scr]
    fetchData_hit_outcome [OF assms(1,2), of J d cs cd scr]
    fetchData_write_rejected [OF assms(1,2) _ assms(3,4,5), of d scr]
  by simp

theorem rejected_write_hides_fresh_witness:
  "''12'' \<noteq> [] \<and> reads_ok unwritable ''12'' \<and> isConnected unwritable \<and>
   remote_bundle sample_json unwritable ''12'' = Some (morning, [waking]) \<and>
   \<not> writes_ok unwritable ''12'' \<and>
   cached_bundle sample_json evening_disk ''12'' = Some (evening, []) \<and>
   load_outcome (fetchData sample_json unwritable (Some ''12'') (initial_screen, evening_disk)) =
     Cached (evening, []) \<and>
   \<not> cache_present empty_disk ''12'' \<and>
   error (ui (fetchData sample_json unwritable (Some ''12'') (initial_screen, empty_disk))) = None \<and>
   subcategoryDuas (ui (fetchData sample_json unwritable (Some ''12'') (initial_screen, empty_disk))) = [] \<and>
   load_outcome (fetchData sample_json unwritable (Some ''12'') (initial_screen, empty_disk)) = NoData"
  using rejected_write_hides_fresh [of "''12''" unwritable sample_json morning "[waking]" evening_disk evening "[]" initial_screen]
    rejected_write_hides_fresh [of "''12''" unwritable sample_json morning "[waking]" empty_disk evening "[]" initial_screen]
  by (simp add: initial_screen_def)

text \<open>
  The claim as stated fails: on a miss, the same responses give \<open>Fresh\<close> when the
  writes resolve and no bundle at all when they reject.
\<close>

theorem rejected_write_changes_outcome:
  "\<not> cache_present empty_disk ''12'' \<and> isConnected unwritable \<and>
   remote_bundle sample_json unwritable ''12'' = Some (morning, [waking]) \<and>
   load_outcome (fetchData sample_json unwritable (Some ''12'') (initial_screen, empty_disk)) = NoData \<and>
   load_outcome (fetchData sample_json online (Some ''12'') (initial_screen, empty_disk)) =
     Fresh (morning, [waking])"
  by (simp add: fetchData_write_rejected fetchData_miss_fresh_outcome)



text \<open>
  C9. With the remote bundle unchanged, the device reachable, storage reads and
  writes resolving, and a cache entry that is absent or parses, every one of
  \<open>n\<close> consecutive loads makes the same two \<open>setItem\<close> calls with the same two
  texts, and after each of them the stored items are the items before the first
  load with these two texts under the key's two cache keys.
\<close>

theorem repeated_loads_same_cache:
  assumes "k \<noteq> []" and "reads_ok E k" and "isConnected E" and "writes_ok E k"
    and "remote_bundle J E k = Some (sd, dd)"
    and "\<not> cache_present d k \<or> cached_bundle J d k \<noteq> None"
    and "parse_subcategory J (stringify_subcategory J sd) = Some sd"
    and "parse_duas J (stringify_duas J dd) = Some dd"
    and "0 < n"
  shows "items (snd (loads n J E (Some k) (scr, d))) =
           (items d)(subcategory_cache_key k \<mapsto> stringify_subcategory J sd,
                     duas_cache_key k \<mapsto> stringify_duas J dd) \<and>
         set_calls (snd (loads n J E (Some k) (scr, d))) =
           set_calls d @ concat (replicate n
             [(subcategory_cache_key k, stringify_subcategory J sd),
              (duas_cache_key k, stringify_duas J dd)])"
  using loads_invariant [OF assms(1-8), of n scr] assms(9) by simp

theorem repeated_loads_same_cache_witness:
  "''12'' \<noteq> [] \<and> reads_ok online ''12'' \<and> isConnected online \<and> writes_ok online ''12'' \<and>
   remote_bundle sample_json online ''12'' = Some (morning, [waking]) \<and>
   \<not> cache_present empty_disk ''12'' \<and>
   parse_subcategory sample_json (stringify_subcategory sample_json morning) = Some morning \<and>
   parse_duas sample_json (stringify_duas sample_json [waking]) = Some [waking] \<and>
   items (snd (loads 2 sample_json online (Some ''12'') (initial_screen, empty_disk))) =
     [''subcategory_12_cache'' \<mapsto> ''{name:Morning}'', ''duas_12_cache'' \<mapsto> ''[Waking]''] \<and>
   set_calls (snd (loads 2 sample_json online (Some ''12'') (initial_screen, empty_disk))) =
     [(''subcategory_12_cache'', ''{name:Morning}''), (''duas_12_cache'', ''[Waking]''),
      (''subcategory_12_cache'', ''{name:Morning}''), (''duas_12_cache'', ''[Waking]'')]"
proof -
  have rt: "parse_subcategory sample_json (stringify_subcategory sample_json morning) = Some morning"
    "parse_duas sample_json (stringify_duas sample_json [waking]) = Some [waking]"
    by (simp_all add: sample_json_def morning_def waking_def)
  have texts: "stringify_subcategory sample_json morning = ''{name:Morning}''"
    "stringify_duas sample_json [waking] = ''[Waking]''"
    by (simp_all add: sample_json_def morning_def waking_def)
  have keys: "subcategory_cache_key ''12'' = ''subcategory_12_cache''"
    "duas_cache_key ''12'' = ''duas_12_cache''"
    by (simp_all add: subcategory_cache_key_def duas_cache_key_def)
  have blank: "items empty_disk = Map.empty" "set_calls empty_disk = []"
    by (simp_all add: empty_disk_def)
  have two: "replicate 2 x = [x, x]" for x :: "(string \<times> string) list"
    by (simp add: numeral_2_eq_2)
  from repeated_loads_same_cache [of "''12''" online sample_json morning "[waking]" empty_disk 2 initial_screen] rt
  show ?thesis
    by (simp add: two texts keys blank)
qed

text \<open>
  C10. On a cache miss with the reads resolving and the device reachable, a
  fetch that fails at any stage leaves the load with no error and no bundle: the
  error is null, subcategory and list are what they were before the load (null
  and empty on a fresh screen), and the outcome is none of \<open>Fresh\<close>, \<open>Cached\<close>,
  \<open>Unavailable\<close>.
\<close>

theorem failed_fetch_on_miss_is_silent:
  assumes "k \<noteq> []" and "reads_ok E k" and "\<not> cache_present d k"
    and "isConnected E" and "remote_bundle J E k = None"
  shows "error (ui (fetchData J E (Some k) (scr, d))) = None \<and>
         subcategory (ui (fetchData J E (Some k) (scr, d))) = subcategory scr \<and>
         subcategoryDuas (ui (fetchData J E (Some k) (scr, d))) = subcategoryDuas scr \<and>
         loading (ui (fetchData J E (Some k) (scr, d))) = False \<and>
         load_outcome (fetchData J E (Some k) (scr, d)) = NoData"
proof -
  let ?fr0 = "\<lparr>ui = scr\<lparr>loading := True, error := None\<rparr>, disk = d,
                 console = [], requests = [], subcategoryData = None, duasData = None,
                 fromCache = False\<rparr>"
  note nf = network_failure [OF assms(5), of ?fr0]
  have nofresh: "fresh_log \<notin> set (console (online_phase J E k ?fr0))"
    using online_phase_no_fresh [of J E k ?fr0] assms(5) by simp
  show ?thesis
    unfolding fetchData_miss [OF assms(1-3)] load_outcome_def
    using assms(4) nf nofresh
    by (simp add: Let_def online_phase_peel)
qed

theorem failed_fetch_on_miss_is_silent_witness:
  "''12'' \<noteq> [] \<and> reads_ok unreachable_server ''12'' \<and> \<not> cache_present empty_disk ''12'' \<and>
   isConnected unreachable_server \<and>
   remote_bundle sample_json unreachable_server ''12'' = None \<and>
   error (ui (fetchData sample_json unreachable_server (Some ''12'')
                (initial_screen, empty_disk))) = None \<and>
   subcategoryDuas (ui (fetchData sample_json unreachable_server (Some ''12'')
                (initial_screen, empty_disk))) = [] \<and>
   load_outcome (fetchData sample_json unreachable_server (Some ''12'')
                (initial_screen, empty_disk)) = NoData"
  using failed_fetch_on_miss_is_silent [of "''12''" unreachable_server empty_disk sample_json initial_screen]
  by (simp add: initial_screen_def)

end
